theory Spec2Isabelle
  imports Main "HOL-Library.Word"
begin

section \<open>Dynamic values and exceptions\<close>

text \<open>
  The engine's dynamic value (\<^verbatim>\<open>elem::js::Value\<close>): a closed sum over the kinds the
  sources test for (\<^verbatim>\<open>isUndefined\<close>, \<^verbatim>\<open>isNull\<close>, \<^verbatim>\<open>isBool\<close>, \<^verbatim>\<open>isNumber\<close>,
  \<^verbatim>\<open>isString\<close>, \<^verbatim>\<open>isArray\<close>, \<^verbatim>\<open>isFloat32Array\<close>, \<^verbatim>\<open>isObject\<close>). The type
  \<open>'n\<close> stands for the double precision number, \<open>'s\<close> for the 32-bit float sample;
  no function of this development computes with either, so both stay abstract.
  An object is the list of its entries.
\<close>

datatype ('n, 's) Value =
    Undefined
  | Null
  | Boolean bool
  | Number 'n
  | String string
  | Array "('n, 's) Value list"
  | Float32Array "'s list"
  | Object "(string \<times> ('n, 's) Value) list"

fun isString :: "('n, 's) Value \<Rightarrow> bool" where
  "isString (String s) = True"
| "isString v = False"

fun isArray :: "('n, 's) Value \<Rightarrow> bool" where
  "isArray (Array xs) = True"
| "isArray v = False"

fun isFloat32Array :: "('n, 's) Value \<Rightarrow> bool" where
  "isFloat32Array (Float32Array xs) = True"
| "isFloat32Array v = False"

text \<open>
  The exceptions the sources name: \<^verbatim>\<open>elem::InvariantViolation\<close> with its message,
  \<^verbatim>\<open>mpark::bad_variant_access\<close> (raised by a narrowing conversion of a value of another
  kind), and any other exception.
\<close>

datatype exn =
    InvariantViolation string
  | bad_variant_access
  | other_exception string

text \<open>
  Modelled from the spec: \<^verbatim>\<open>Invariant.h\<close> is not among the sources. \<^verbatim>\<open>invariant(c, msg)\<close>
  raises \<^verbatim>\<open>InvariantViolation\<close> carrying \<open>msg\<close> when \<open>c\<close> is false ("fails loudly"),
  the exception that \<^verbatim>\<open>postMessageBatch\<close> catches and reports with \<^verbatim>\<open>e.what()\<close>.
\<close>

definition invariant :: "bool \<Rightarrow> string \<Rightarrow> exn + unit" where
  "invariant c msg = (if c then Inr () else Inl (InvariantViolation msg))"

text \<open>
  The narrowing conversion \<^verbatim>\<open>(js::String) val\<close>: it fails on a value of another kind.
\<close>

fun toString :: "('n, 's) Value \<Rightarrow> exn + string" where
  "toString (String s) = Inr s"
| "toString v = Inl bad_variant_access"

fun toNumber :: "('n, 's) Value \<Rightarrow> exn + 'n" where
  "toNumber (Number x) = Inr x"
| "toNumber v = Inl bad_variant_access"

section \<open>The handoff queue and the shared resource map\<close>

text \<open>
  Modelled from the spec: \<^verbatim>\<open>SingleWriterSingleReaderQueue.h\<close> is not among the sources.
  Section 4.4 of the specification: a bounded single-producer/single-consumer channel;
  \<^verbatim>\<open>push\<close> is non-blocking and "fails silently by dropping if the bound is exceeded";
  \<^verbatim>\<open>pop\<close> moves the oldest item into the caller's slot and reports whether there was
  one. The bound is a field of the queue, so every statement holds for any bound.
\<close>

record 'a SingleWriterSingleReaderQueue =
  capacity :: nat
  items :: "'a list"

definition push :: "'a SingleWriterSingleReaderQueue \<Rightarrow> 'a \<Rightarrow> 'a SingleWriterSingleReaderQueue" where
  "push q x = (if length (items q) < capacity q then q\<lparr>items := items q @ [x]\<rparr> else q)"

definition pop :: "'a SingleWriterSingleReaderQueue \<Rightarrow> 'a \<Rightarrow> bool \<times> 'a SingleWriterSingleReaderQueue \<times> 'a" where
  "pop q el = (case items q of [] \<Rightarrow> (False, q, el) | x # xs \<Rightarrow> (True, q\<lparr>items := xs\<rparr>, x))"

definition size_q :: "'a SingleWriterSingleReaderQueue \<Rightarrow> nat" where
  "size_q q = length (items q)"

text \<open>
  Modelled from the spec: \<^verbatim>\<open>SharedResourceMap\<close> is not among the sources. Section 4.2: a
  mapping from path to float buffer with \<^verbatim>\<open>has\<close>, \<^verbatim>\<open>get\<close> and insert-or-replace.
\<close>

type_synonym 's SharedResourceMap = "string \<rightharpoonup> 's list"

definition has :: "'s SharedResourceMap \<Rightarrow> string \<Rightarrow> bool" where
  "has resources p = (resources p \<noteq> None)"

section \<open>The convolution node\<close>

text \<open>
  A \<^verbatim>\<open>ConvolutionNode\<close>: the property store of its \<^verbatim>\<open>GraphNode\<close> base, the handoff
  queue of convolvers and the current convolver. A \<^verbatim>\<open>std::shared_ptr\<close> is an option,
  \<^verbatim>\<open>nullptr\<close> being \<open>None\<close>. The convolver itself (\<^verbatim>\<open>fftconvolver::TwoStageFFTConvolver\<close>,
  an external library) is the abstract type \<open>'c\<close>.
\<close>

record ('n, 's, 'c) ConvolutionNode =
  props :: "string \<rightharpoonup> ('n, 's) Value"
  convolverQueue :: "'c option SingleWriterSingleReaderQueue"
  convolver :: "'c option"

text \<open>
  Modelled from the spec: \<^verbatim>\<open>GraphNode.h\<close> is not among the sources. The base
  \<^verbatim>\<open>GraphNode::setProperty(key, val)\<close> writes the property store, "a mapping of String to
  Dynamic Value, last-write-wins per key" (section 3).
\<close>

definition GraphNode_setProperty ::
  "('n, 's, 'c) ConvolutionNode \<Rightarrow> string \<Rightarrow> ('n, 's) Value \<Rightarrow> ('n, 's, 'c) ConvolutionNode" where
  "GraphNode_setProperty n key val = n\<lparr>props := (props n)(key \<mapsto> val)\<rparr>"

text \<open>
  \<^verbatim>\<open>ConvolutionNode::setProperty\<close>. The result is the outcome of the call (the exception
  it raises, or normal return) together with the node as the call leaves it: an exception
  does not undo the writes made before it. \<open>init\<close> is the external library's
  \<^verbatim>\<open>reset(); init(512, 4096, data, size)\<close> on a fresh convolver.
\<close>

definition setProperty ::
  "(nat \<Rightarrow> nat \<Rightarrow> 's list \<Rightarrow> 'c) \<Rightarrow> ('n, 's, 'c) ConvolutionNode \<Rightarrow> string \<Rightarrow> ('n, 's) Value
     \<Rightarrow> 's SharedResourceMap \<Rightarrow> (exn + unit) \<times> ('n, 's, 'c) ConvolutionNode" where
  "setProperty init n key val resources =
     (let n1 = GraphNode_setProperty n key val in
      if key = ''path'' then
        (case invariant (isString val) ''path prop must be a string'' of
           Inl e \<Rightarrow> (Inl e, n1)
         | Inr _ \<Rightarrow>
            (case toString val of
               Inl e \<Rightarrow> (Inl e, n1)
             | Inr p \<Rightarrow>
                (case invariant (has resources p) ''failed to find a resource at the given path'' of
                   Inl e \<Rightarrow> (Inl e, n1)
                 | Inr _ \<Rightarrow>
                    (case resources p of
                       None \<Rightarrow> (Inl (InvariantViolation ''failed to find a resource at the given path''), n1)
                     | Some ref \<Rightarrow>
                         (let co = Some (init 512 4096 ref)
                          in (Inr (), n1\<lparr>convolverQueue := push (convolverQueue n1) co\<rparr>))))))
      else (Inr (), n1))"

text \<open>
  The block context handed to \<^verbatim>\<open>process\<close>. A buffer behind a pointer is the list of the
  samples stored from that pointer on; the runtime hands every node buffers of at least
  \<open>numSamples\<close> samples.
\<close>

record 's BlockContext =
  inputData :: "'s list list"
  outputData :: "'s list"
  numInputChannels :: nat
  numSamples :: nat

text \<open>\<^verbatim>\<open>std::fill_n(out, n, v)\<close>: the first \<open>n\<close> samples become \<open>v\<close>, the rest stay.\<close>

definition fill_n :: "'s list \<Rightarrow> nat \<Rightarrow> 's \<Rightarrow> 's list" where
  "fill_n out n v = replicate n v @ drop n out"

text \<open>
  The loop \<^verbatim>\<open>while (convolverQueue.size() > 0) convolverQueue.pop(convolver);\<close>
\<close>

function drain :: "('n, 's, 'c) ConvolutionNode \<Rightarrow> ('n, 's, 'c) ConvolutionNode" where
  "drain n =
     (if size_q (convolverQueue n) > 0
      then (case pop (convolverQueue n) (convolver n) of
              (ok, q', el') \<Rightarrow> drain (n\<lparr>convolverQueue := q', convolver := el'\<rparr>))
      else n)"
  by pat_completeness auto
termination
  by (relation "measure (\<lambda>n. size_q (convolverQueue n))")
     (auto simp: size_q_def pop_def split: list.splits)

declare drain.simps [simp del]

text \<open>
  \<^verbatim>\<open>ConvolutionNode::process\<close>. \<open>cprocess\<close> is the external library's
  \<^verbatim>\<open>TwoStageFFTConvolver::process(input, output, len)\<close>: from the convolver, the input
  buffer, the output buffer and the length it gives the convolver and the output buffer
  as the call leaves them. The result is the node and the output buffer after the call.
\<close>

definition process ::
  "('c \<Rightarrow> 's list \<Rightarrow> 's list \<Rightarrow> nat \<Rightarrow> 'c \<times> 's list) \<Rightarrow> ('n, 's::zero, 'c) ConvolutionNode
     \<Rightarrow> 's BlockContext \<Rightarrow> ('n, 's, 'c) ConvolutionNode \<times> 's list" where
  "process cprocess n ctx =
     (let inputData = inputData ctx;
          outputData = outputData ctx;
          numChannels = numInputChannels ctx;
          numSamples = numSamples ctx;
          n1 = drain n
      in if numChannels = 0 \<or> convolver n1 = None
         then (n1, fill_n outputData numSamples 0)
         else (case convolver n1 of
                 None \<Rightarrow> (n1, fill_n outputData numSamples 0)
               | Some c \<Rightarrow>
                   (case cprocess c (inputData ! 0) outputData numSamples of
                      (c', out') \<Rightarrow> (n1\<lparr>convolver := Some c'\<rparr>, out'))))"

text \<open>
  A run of \<^verbatim>\<open>convolverQueue.push\<close> calls made between two calls of \<^verbatim>\<open>process\<close>, one
  per payload, oldest first (line 31 of the node's \<^verbatim>\<open>setProperty\<close> is the only push).
\<close>

definition pushes ::
  "('n, 's, 'c) ConvolutionNode \<Rightarrow> 'c option list \<Rightarrow> ('n, 's, 'c) ConvolutionNode" where
  "pushes n ps = n\<lparr>convolverQueue := foldl push (convolverQueue n) ps\<rparr>"

text \<open>
  Sample data for the closed instances below: a freshly constructed node whose queue
  has the given bound, a convolver that is the list of its impulse response, a convolver
  routine that copies the first \<open>len\<close> input samples, and two block contexts.
\<close>

definition fresh_node :: "nat \<Rightarrow> (nat, int, int list) ConvolutionNode" where
  "fresh_node cap =
     \<lparr>props = Map.empty, convolverQueue = \<lparr>capacity = cap, items = []\<rparr>, convolver = None\<rparr>"

definition init_ir :: "nat \<Rightarrow> nat \<Rightarrow> int list \<Rightarrow> int list" where
  "init_ir headBlockSize tailBlockSize ir = ir"

definition copy_process :: "int list \<Rightarrow> int list \<Rightarrow> int list \<Rightarrow> nat \<Rightarrow> int list \<times> int list" where
  "copy_process c input output len = (c, take len input @ drop len output)"

definition mono_ctx :: "int BlockContext" where
  "mono_ctx = \<lparr>inputData = [[1, 2, 3, 4]], outputData = [9, 9, 9, 9], numInputChannels = 1, numSamples = 3\<rparr>"

definition stereo_ctx :: "int BlockContext" where
  "stereo_ctx =
     \<lparr>inputData = [[1, 2, 3, 4], [5, 6, 7, 8]], outputData = [9, 9, 9, 9], numInputChannels = 2, numSamples = 3\<rparr>"

definition no_input_ctx :: "int BlockContext" where
  "no_input_ctx = \<lparr>inputData = [], outputData = [9, 9, 9, 9], numInputChannels = 0, numSamples = 3\<rparr>"

section \<open>Host values\<close>

text \<open>
  A host value (\<^verbatim>\<open>emscripten::val\<close>) is a handle on a JavaScript value: a primitive, or a
  reference to an object of the host's heap. Arrays and objects hold host values again,
  references among them, so an object can be reached from itself. The heap maps a
  reference to the object behind it. \<open>val_other\<close> is a primitive of another kind (a
  symbol, a big integer); \<open>Bare_object\<close> an object that is no instance of
  \<^verbatim>\<open>Object\<close>. An array is the list of its elements, a plain object the list of its own
  enumerable keys (what \<^verbatim>\<open>Object.keys\<close> returns) with their values.
\<close>

datatype 'n val =
    val_undefined
  | val_null
  | val_true
  | val_false
  | val_number 'n
  | val_string string
  | val_other
  | val_object nat

datatype ('n, 's) host_object =
    Float32Array_object "'s list"
  | Array_object "'n val list"
  | Function_object
  | Plain_object "(string \<times> 'n val) list"
  | Bare_object

type_synonym ('n, 's) host_heap = "nat \<Rightarrow> ('n, 's) host_object option"

text \<open>\<^verbatim>\<open>std::map::insert\<close>: an entry whose key is already present is not stored.\<close>

definition map_insert :: "(string \<times> 'v) list \<Rightarrow> string \<times> 'v \<Rightarrow> (string \<times> 'v) list" where
  "map_insert m e = (if fst e \<in> fst ` set m then m else m @ [e])"

text \<open>
  \<^verbatim>\<open>emValToValue\<close>, the tests in the order of the source. The function calls itself on
  every element of an array and on every value of an object; the first argument bounds
  the depth of these calls, and \<open>None\<close> says that the bound was reached. A call returns
  exactly when some bound gives \<open>Some\<close>.
\<close>

fun emValToValue :: "nat \<Rightarrow> ('n, 's) host_heap \<Rightarrow> 'n val \<Rightarrow> ('n, 's) Value option" where
  "emValToValue 0 h v = None"
| "emValToValue (Suc k) h v =
     (case v of
        val_undefined \<Rightarrow> Some Undefined
      | val_null \<Rightarrow> Some Null
      | val_true \<Rightarrow> Some (Boolean True)
      | val_false \<Rightarrow> Some (Boolean False)
      | val_number x \<Rightarrow> Some (Number x)
      | val_string s \<Rightarrow> Some (String s)
      | val_other \<Rightarrow> Some Undefined
      | val_object r \<Rightarrow>
          (case h r of
             Some (Float32Array_object xs) \<Rightarrow> Some (Float32Array xs)
           | Some (Array_object xs) \<Rightarrow> map_option Array (those (map (emValToValue k h) xs))
           | Some Function_object \<Rightarrow> Some Undefined
           | Some (Plain_object es) \<Rightarrow>
               map_option (\<lambda>kvs. Object (foldl map_insert [] kvs))
                 (those (map (\<lambda>e. map_option (Pair (fst e)) (emValToValue k h (snd e))) es))
           | Some Bare_object \<Rightarrow> Some Undefined
           | None \<Rightarrow> Some Undefined))"

text \<open>
  A host value is finite when the arrays and objects below it nest to a finite depth:
  none of them is reached from itself.
\<close>

inductive finite_val :: "('n, 's) host_heap \<Rightarrow> 'n val \<Rightarrow> bool" for h :: "('n, 's) host_heap" where
  primitive: "(\<And>r. v \<noteq> val_object r) \<Longrightarrow> finite_val h v"
| array: "h r = Some (Array_object xs) \<Longrightarrow> (\<And>x. x \<in> set xs \<Longrightarrow> finite_val h x) \<Longrightarrow> finite_val h (val_object r)"
| plain: "h r = Some (Plain_object es) \<Longrightarrow> (\<And>e. e \<in> set es \<Longrightarrow> finite_val h (snd e)) \<Longrightarrow> finite_val h (val_object r)"
| leaf: "(\<And>xs. h r \<noteq> Some (Array_object xs)) \<Longrightarrow> (\<And>es. h r \<noteq> Some (Plain_object es)) \<Longrightarrow> finite_val h (val_object r)"

text \<open>
  The dynamic value that a host value is to convert to, stated on its own: undefined,
  null, the booleans, numbers, strings and typed float arrays go to the value of the same
  kind and content; an array goes to the array of what its elements convert to, in
  order; a plain object goes to the object that holds, under each key, what the value at
  that key converts to (the entries are put into the object in order, and an entry whose
  key the object already holds is not stored); everything else goes to \<open>Undefined\<close>.
\<close>

inductive converts_to :: "('n, 's) host_heap \<Rightarrow> 'n val \<Rightarrow> ('n, 's) Value \<Rightarrow> bool"
  for h :: "('n, 's) host_heap" where
  conv_undefined: "converts_to h val_undefined Undefined"
| conv_null: "converts_to h val_null Null"
| conv_true: "converts_to h val_true (Boolean True)"
| conv_false: "converts_to h val_false (Boolean False)"
| conv_number: "converts_to h (val_number d) (Number d)"
| conv_string: "converts_to h (val_string s) (String s)"
| conv_other: "converts_to h val_other Undefined"
| conv_float32array: "h r = Some (Float32Array_object fs) \<Longrightarrow> converts_to h (val_object r) (Float32Array fs)"
| conv_array:
    "h r = Some (Array_object xs) \<Longrightarrow> list_all2 (converts_to h) xs ys \<Longrightarrow>
       converts_to h (val_object r) (Array ys)"
| conv_function: "h r = Some Function_object \<Longrightarrow> converts_to h (val_object r) Undefined"
| conv_object:
    "h r = Some (Plain_object es) \<Longrightarrow>
     list_all2 (\<lambda>e kv. fst kv = fst e \<and> converts_to h (snd e) (snd kv)) es kvs \<Longrightarrow>
       converts_to h (val_object r) (Object (foldl map_insert [] kvs))"
| conv_bare: "h r = Some Bare_object \<Longrightarrow> converts_to h (val_object r) Undefined"
| conv_dangling: "h r = None \<Longrightarrow> converts_to h (val_object r) Undefined"

text \<open>Sample heaps: an array that holds itself, and a nested message batch.\<close>

definition cyclic_heap :: "(nat, int) host_heap" where
  "cyclic_heap = [0 \<mapsto> Array_object [val_object 0], 1 \<mapsto> Plain_object [(''self'', val_object 1)]]"

definition batch_heap :: "(nat, int) host_heap" where
  "batch_heap =
     [0 \<mapsto> Array_object [val_object 1, val_number 7, val_object 3],
      1 \<mapsto> Plain_object [(''path'', val_string ''/ir/hall.wav''), (''on'', val_true)],
      2 \<mapsto> Float32Array_object [1, 0, 2],
      3 \<mapsto> Function_object,
      4 \<mapsto> Array_object [val_number 1, val_number 0, val_number 2],
      5 \<mapsto> Array_object [val_number 1, val_string ''x'']]"

section \<open>The runtime\<close>

text \<open>
  A node as a factory of the registry constructs it: its class and the three arguments
  of the constructor, \<^verbatim>\<open>(id, fs, bs)\<close>.
\<close>

datatype node_class =
    ConvolutionNodeClass
  | FFTNodeClass
  | MetronomeNodeClass
  | SampleTimeNodeClass

record 'n GraphNode =
  nodeClass :: node_class
  nodeId :: "32 word"
  fs :: 'n
  bs :: "32 word"

type_synonym 'n NodeFactoryFn = "32 word \<Rightarrow> 'n \<Rightarrow> 32 word \<Rightarrow> 'n GraphNode"

text \<open>\<^verbatim>\<open>std::make_shared<elem::C<float>>(id, fs, bs)\<close> for the node class \<open>C\<close>.\<close>

definition make_shared :: "node_class \<Rightarrow> 'n NodeFactoryFn" where
  "make_shared c ident sr bsz = \<lparr>nodeClass = c, nodeId = ident, fs = sr, bs = bsz\<rparr>"

text \<open>
  Modelled from the spec: \<^verbatim>\<open>Runtime.h\<close> is not among the sources. The runtime holds the
  sample rate and block size it was constructed with, the registry of node-kind
  factories ("a registry maps string tags to constructors", owned by one runtime
  instance), the shared resource map, and the graph state \<open>'g\<close>, which no function of
  the sources at hand reads. The registry is "populated before \<^verbatim>\<open>prepare\<close> completes"
  (section 6), by registrations; the specification names no kind that a runtime
  registers on its own, so the registry of a newly constructed runtime is empty.
\<close>

record ('n, 's, 'g) Runtime =
  rt_sampleRate :: 'n
  rt_blockSize :: "32 word"
  nodeFactory :: "string \<rightharpoonup> 'n NodeFactoryFn"
  sharedResourceMap :: "'s SharedResourceMap"
  graph :: 'g

definition new_Runtime :: "'g \<Rightarrow> 'n \<Rightarrow> 32 word \<Rightarrow> ('n, 's, 'g) Runtime" where
  "new_Runtime g sr bsz =
     \<lparr>rt_sampleRate = sr, rt_blockSize = bsz, nodeFactory = Map.empty, sharedResourceMap = Map.empty,
      graph = g\<rparr>"

text \<open>Modelled from the spec: \<^verbatim>\<open>Runtime::registerNodeType\<close> enters a factory under its tag.\<close>

definition registerNodeType ::
  "('n, 's, 'g) Runtime \<Rightarrow> string \<Rightarrow> 'n NodeFactoryFn \<Rightarrow> ('n, 's, 'g) Runtime" where
  "registerNodeType rt type fn = rt\<lparr>nodeFactory := (nodeFactory rt)(type \<mapsto> fn)\<rparr>"

text \<open>
  Modelled from the spec: \<^verbatim>\<open>Runtime::updateSharedResourceMap\<close> is the resource map's
  \<^verbatim>\<open>put(path, floats)\<close>, "insert or replace" (section 4.2).
\<close>

definition Runtime_updateSharedResourceMap ::
  "('n, 's, 'g) Runtime \<Rightarrow> string \<Rightarrow> 's list \<Rightarrow> ('n, 's, 'g) Runtime" where
  "Runtime_updateSharedResourceMap rt name buf =
     rt\<lparr>sharedResourceMap := (sharedResourceMap rt)(name \<mapsto> buf)\<rparr>"

text \<open>
  Modelled from the spec: the error kinds of section 7, and the lookup of the create
  instruction of section 6: the kind is looked up in the registry, "an unregistered kind
  in a create instruction fails with UnknownNodeKind", a registered one gives its
  factory.
\<close>

datatype ErrorKind =
    TypeMismatch
  | InvalidProperty
  | ResourceNotFound
  | UnknownNodeKind
  | DuplicateNodeId
  | UnknownNodeId
  | CyclicGraph
  | MalformedInstruction


section \<open>The audio processor\<close>

text \<open>
  \<^verbatim>\<open>ElementaryAudioProcessor\<close>. \<^verbatim>\<open>size_t\<close> has 32 bits on the WebAssembly target, so the
  conversion of the constructor's \<^verbatim>\<open>int\<close> arguments keeps their bits. A scratch pointer
  is the index of the buffer it points into. The \<^verbatim>\<open>std::unique_ptr\<close> of the runtime
  is an option.
\<close>

record ('n, 's, 'g) ElementaryAudioProcessor =
  runtime :: "('n, 's, 'g) Runtime option"
  scratchBuffers :: "'s list list"
  scratchPointers :: "nat list"
  sampleTime :: "64 word"
  numInputChannels :: "32 word"
  numOutputChannels :: "32 word"

definition new_ElementaryAudioProcessor :: "32 word \<Rightarrow> 32 word \<Rightarrow> ('n, 's, 'g) ElementaryAudioProcessor" where
  "new_ElementaryAudioProcessor numIns numOuts =
     \<lparr>runtime = None, scratchBuffers = [], scratchPointers = [], sampleTime = 0,
      numInputChannels = numIns, numOutputChannels = numOuts\<rparr>"

text \<open>The two loops of \<^verbatim>\<open>prepare\<close>, \<open>i\<close> running from its start value up to \<open>n\<close>.\<close>

function push_back_buffers :: "nat \<Rightarrow> nat \<Rightarrow> nat \<Rightarrow> ('s::zero) list list \<Rightarrow> 's list list" where
  "push_back_buffers i n maxBlockSize bufs =
     (if i < n then push_back_buffers (Suc i) n maxBlockSize (bufs @ [replicate maxBlockSize 0])
      else bufs)"
  by pat_completeness auto
termination
  by (relation "measure (\<lambda>(i, n, m, bufs). n - i)") auto

function push_back_pointers :: "nat \<Rightarrow> nat \<Rightarrow> nat list \<Rightarrow> nat list" where
  "push_back_pointers i n ptrs =
     (if i < n then push_back_pointers (Suc i) n (ptrs @ [i]) else ptrs)"
  by pat_completeness auto
termination
  by (relation "measure (\<lambda>(i, n, ptrs). n - i)") auto

declare push_back_buffers.simps [simp del] push_back_pointers.simps [simp del]

definition prepare ::
  "'g \<Rightarrow> ('n, 's::zero, 'g) ElementaryAudioProcessor \<Rightarrow> 'n \<Rightarrow> 32 word
     \<Rightarrow> ('n, 's, 'g) ElementaryAudioProcessor" where
  "prepare g p sampleRate maxBlockSize =
     (let n = unat (numInputChannels p + numOutputChannels p);
          bufs = push_back_buffers 0 n (unat maxBlockSize) [];
          ptrs = push_back_pointers 0 n [];
          rt0 = new_Runtime g sampleRate maxBlockSize;
          rt1 = registerNodeType rt0 ''convolve'' (make_shared ConvolutionNodeClass);
          rt2 = registerNodeType rt1 ''fft'' (make_shared FFTNodeClass);
          rt3 = registerNodeType rt2 ''metro'' (make_shared MetronomeNodeClass);
          rt4 = registerNodeType rt3 ''time'' (make_shared SampleTimeNodeClass)
      in p\<lparr>scratchBuffers := bufs, scratchPointers := ptrs, runtime := Some rt4\<rparr>)"

text \<open>
  How a call of the processor ends: it returns, an exception leaves it, or it
  dereferences the runtime pointer while that is still null (before \<^verbatim>\<open>prepare\<close>).
\<close>

datatype outcome = Returns | Throws exn | NullDereference

text \<open>
  What a call does to its surroundings: the calls of the host's error callback, each
  with its arguments, and the calls of the runtime's \<^verbatim>\<open>applyInstructions\<close>.
\<close>

datatype ('n, 's) effect =
    ErrorCallback "string list"
  | ApplyInstructions "('n, 's) Value list"

text \<open>
  \<^verbatim>\<open>process\<close>. \<open>rprocess\<close> is \<^verbatim>\<open>Runtime::process\<close> (not among the sources): from the
  runtime, the input buffers, their number, the output buffers, their number, the number
  of samples and the sample time behind the user data pointer it gives the runtime and
  the output buffers as the call leaves them.
\<close>

definition write_back :: "'s list list \<Rightarrow> nat list \<Rightarrow> 's list list \<Rightarrow> 's list list" where
  "write_back bufs ptrs outs = foldl (\<lambda>b io. b[fst io := snd io]) bufs (zip ptrs outs)"

definition ElementaryAudioProcessor_process ::
  "(('n, 's, 'g) Runtime \<Rightarrow> 's list list \<Rightarrow> 32 word \<Rightarrow> 's list list \<Rightarrow> 32 word \<Rightarrow> 32 word \<Rightarrow> 64 word
      \<Rightarrow> ('n, 's, 'g) Runtime \<times> 's list list)
     \<Rightarrow> ('n, 's, 'g) ElementaryAudioProcessor \<Rightarrow> 32 word
     \<Rightarrow> outcome \<times> ('n, 's, 'g) ElementaryAudioProcessor" where
  "ElementaryAudioProcessor_process rprocess p nSamples =
     (case runtime p of
        None \<Rightarrow> (NullDereference, p)
      | Some rt \<Rightarrow>
          (let ins = take (unat (numInputChannels p)) (scratchPointers p);
               outs = drop (unat (numInputChannels p)) (scratchPointers p)
           in case rprocess rt (map (nth (scratchBuffers p)) ins) (numInputChannels p)
                     (map (nth (scratchBuffers p)) outs) (numOutputChannels p)
                     nSamples (sampleTime p) of
                (rt', written) \<Rightarrow>
                  (Returns,
                   p\<lparr>runtime := Some rt',
                     scratchBuffers := write_back (scratchBuffers p) outs written,
                     sampleTime := sampleTime p + scast nSamples\<rparr>)))"

text \<open>
  \<^verbatim>\<open>postMessageBatch\<close>. \<open>applyInstructions\<close> is \<^verbatim>\<open>Runtime::applyInstructions\<close> (not among
  the sources): it returns or raises, and leaves a runtime. The result is \<open>None\<close> when
  the conversion of the payload does not return within the depth \<open>k\<close>.
\<close>

definition postMessageBatch ::
  "nat \<Rightarrow> ('n, 's) host_heap
     \<Rightarrow> (('n, 's, 'g) Runtime \<Rightarrow> ('n, 's) Value list \<Rightarrow> (exn + unit) \<times> ('n, 's, 'g) Runtime)
     \<Rightarrow> ('n, 's, 'g) ElementaryAudioProcessor \<Rightarrow> 'n val
     \<Rightarrow> (outcome \<times> ('n, 's, 'g) ElementaryAudioProcessor \<times> ('n, 's) effect list) option" where
  "postMessageBatch k h applyInstructions p payload =
     (case emValToValue k h payload of
        None \<Rightarrow> None
      | Some v \<Rightarrow>
          Some (case v of
             Array batch \<Rightarrow>
               (case runtime p of
                  None \<Rightarrow> (NullDereference, p, [])
                | Some rt \<Rightarrow>
                    (case applyInstructions rt batch of
                       (Inr _, rt') \<Rightarrow> (Returns, p\<lparr>runtime := Some rt'\<rparr>, [ApplyInstructions batch])
                     | (Inl (InvariantViolation what), rt') \<Rightarrow>
                         (Returns, p\<lparr>runtime := Some rt'\<rparr>,
                          [ApplyInstructions batch, ErrorCallback [''error'', what]])
                     | (Inl bad_variant_access, rt') \<Rightarrow>
                         (Returns, p\<lparr>runtime := Some rt'\<rparr>,
                          [ApplyInstructions batch, ErrorCallback [''error'', ''Bad variant access'']])
                     | (Inl (other_exception x), rt') \<Rightarrow>
                         (Returns, p\<lparr>runtime := Some rt'\<rparr>,
                          [ApplyInstructions batch, ErrorCallback [''error'', ''Unhandled exception'']])))
           | _ \<Rightarrow> (Returns, p, [ErrorCallback [''error'', ''Malformed message batch.'']])))"

text \<open>
  \<^verbatim>\<open>arrayToFloatVector\<close>: the loop converts the elements in order and stops at the first
  one that is no number; \<open>toFloat\<close> is \<^verbatim>\<open>static_cast<float>\<close>. Every exception of the
  loop derives from \<^verbatim>\<open>std::exception\<close> and is rethrown as an invariant violation.
\<close>

fun isNumber :: "('n, 's) Value \<Rightarrow> bool" where
  "isNumber (Number x) = True"
| "isNumber v = False"

fun is_std_exception :: "exn \<Rightarrow> bool" where
  "is_std_exception (InvariantViolation what) = True"
| "is_std_exception bad_variant_access = True"
| "is_std_exception (other_exception x) = False"

fun convert_children :: "('n \<Rightarrow> 's) \<Rightarrow> ('n, 's) Value list \<Rightarrow> exn + 's list" where
  "convert_children toFloat [] = Inr []"
| "convert_children toFloat (x # xs) =
     (case toNumber x of
        Inl e \<Rightarrow> Inl e
      | Inr d \<Rightarrow> (case convert_children toFloat xs of Inl e \<Rightarrow> Inl e | Inr ret \<Rightarrow> Inr (toFloat d # ret)))"

definition arrayToFloatVector :: "('n \<Rightarrow> 's) \<Rightarrow> ('n, 's) Value list \<Rightarrow> exn + 's list" where
  "arrayToFloatVector toFloat ar =
     (case convert_children toFloat ar of
        Inl e \<Rightarrow>
          (if is_std_exception e
           then Inl (InvariantViolation ''Failed to convert Array to float vector; invalid array child!'')
           else Inl e)
      | Inr ret \<Rightarrow> Inr ret)"

text \<open>
  \<^verbatim>\<open>updateSharedResourceMap\<close>. The result is \<open>None\<close> when the conversion of the path or
  of the buffer does not return within the depth \<open>k\<close>.
\<close>

definition updateSharedResourceMap ::
  "nat \<Rightarrow> ('n, 's) host_heap \<Rightarrow> ('n \<Rightarrow> 's) \<Rightarrow> ('n, 's, 'g) ElementaryAudioProcessor \<Rightarrow> 'n val \<Rightarrow> 'n val
     \<Rightarrow> (outcome \<times> ('n, 's, 'g) ElementaryAudioProcessor \<times> ('n, 's) effect list) option" where
  "updateSharedResourceMap k h toFloat proc path buffer =
     (case emValToValue k h path of
        None \<Rightarrow> None
      | Some p \<Rightarrow>
         (case emValToValue k h buffer of
            None \<Rightarrow> None
          | Some b \<Rightarrow>
              Some (if \<not> isString p
                 then (Returns, proc, [ErrorCallback [''Path must be a string type'']])
                 else if \<not> isArray b \<and> \<not> isFloat32Array b
                 then (Returns, proc, [ErrorCallback [''Buffer argument must be an Array or Float32Array type'']])
                 else
                   (case (case b of Array ar \<Rightarrow> arrayToFloatVector toFloat ar
                                  | Float32Array xs \<Rightarrow> Inr xs
                                  | _ \<Rightarrow> Inl bad_variant_access) of
                      Inl (InvariantViolation what) \<Rightarrow>
                        (Returns, proc, [ErrorCallback [''Invalid buffer for updating resource map'']])
                    | Inl e \<Rightarrow> (Throws e, proc, [])
                    | Inr buf \<Rightarrow>
                        (case toString p of
                           Inl (InvariantViolation what) \<Rightarrow>
                             (Returns, proc, [ErrorCallback [''Invalid buffer for updating resource map'']])
                         | Inl e \<Rightarrow> (Throws e, proc, [])
                         | Inr name \<Rightarrow>
                             (case runtime proc of
                                None \<Rightarrow> (NullDereference, proc, [])
                              | Some rt \<Rightarrow>
                                  (Returns,
                                   proc\<lparr>runtime := Some (Runtime_updateSharedResourceMap rt name buf)\<rparr>,
                                   [])))))))"

text \<open>
  Sample data: a processor with no input and two outputs, a runtime routine that
  records the sample time it is given, an instruction routine that fails in one of three
  ways, and the conversion of a number to a sample.
\<close>

definition stereo_processor :: "(nat, int, 64 word list) ElementaryAudioProcessor" where
  "stereo_processor = new_ElementaryAudioProcessor 0 2"

definition recording_process ::
  "(nat, int, 64 word list) Runtime \<Rightarrow> int list list \<Rightarrow> 32 word \<Rightarrow> int list list \<Rightarrow> 32 word \<Rightarrow> 32 word
     \<Rightarrow> 64 word \<Rightarrow> (nat, int, 64 word list) Runtime \<times> int list list" where
  "recording_process rt ins numIns outs numOuts nSamples t = (rt\<lparr>graph := graph rt @ [t]\<rparr>, outs)"

definition failing_applyInstructions ::
  "(nat, int, 64 word list) Runtime \<Rightarrow> (nat, int) Value list
     \<Rightarrow> (exn + unit) \<times> (nat, int, 64 word list) Runtime" where
  "failing_applyInstructions rt batch =
     (case batch of
        [] \<Rightarrow> (Inr (), rt)
      | Number x # _ \<Rightarrow> (Inl (InvariantViolation ''Malformed instruction''), rt)
      | String s # _ \<Rightarrow> (Inl bad_variant_access, rt)
      | _ \<Rightarrow> (Inl (other_exception ''std::bad_alloc''), rt))"

definition prepared_processor :: "(nat, int, 64 word list) ElementaryAudioProcessor" where
  "prepared_processor = prepare [] stereo_processor 44100 512"

definition played_processor :: "(nat, int, 64 word list) ElementaryAudioProcessor" where
  "played_processor = snd (ElementaryAudioProcessor_process recording_process prepared_processor 64)"

section \<open>Properties of the convolution node\<close>

lemma drain_empty: "items (convolverQueue n) = [] \<Longrightarrow> drain n = n"
  by (subst drain.simps) (simp add: size_q_def)

lemma drain_items: "items (convolverQueue (drain n)) = []"
proof (induction n rule: drain.induct)
  case (1 n)
  show ?case
  proof (cases "size_q (convolverQueue n) > 0")
    case True
    obtain ok q' el' where p: "pop (convolverQueue n) (convolver n) = (ok, q', el')"
      by (cases "pop (convolverQueue n) (convolver n)") auto
    from "1" [OF True p [symmetric] refl] True p show ?thesis
      by (subst drain.simps) simp
  next
    case False
    then show ?thesis by (subst drain.simps) (simp add: size_q_def)
  qed
qed

lemma drain_eq:
  "drain n =
     (if items (convolverQueue n) = [] then n
      else n\<lparr>convolverQueue := (convolverQueue n)\<lparr>items := []\<rparr>,
              convolver := last (items (convolverQueue n))\<rparr>)"
proof (induction "items (convolverQueue n)" arbitrary: n)
  case Nil
  then show ?case by (simp add: drain_empty)
next
  case (Cons x xs)
  let ?n' = "n\<lparr>convolverQueue := (convolverQueue n)\<lparr>items := xs\<rparr>, convolver := x\<rparr>"
  from Cons.hyps(2) have step: "drain n = drain ?n'"
    by (subst drain.simps) (simp add: size_q_def pop_def flip: Cons.hyps(2))
  have "xs = items (convolverQueue ?n')" by simp
  from Cons.hyps(1) [OF this] Cons.hyps(2) [symmetric] show ?case
    by (simp add: step)
qed

lemma foldl_push:
  "length (items q) + length ps \<le> capacity q \<Longrightarrow>
     foldl push q ps = q\<lparr>items := items q @ ps\<rparr>"
  by (induction ps arbitrary: q) (simp_all add: push_def)

lemma process_items: "items (convolverQueue (fst (process cp n ctx))) = []"
  by (simp add: process_def Let_def drain_items split: option.splits prod.splits)

lemma process_capacity:
  "capacity (convolverQueue (fst (process cp n ctx))) = capacity (convolverQueue n)"
  by (simp add: process_def Let_def drain_eq split: option.splits prod.splits)

lemma process_cong_drain: "drain a = drain b \<Longrightarrow> process cp a ctx = process cp b ctx"
  by (simp add: process_def)

lemma process_fresh_node: "fst (process cp (fresh_node cap) ctx) = fresh_node cap"
  by (simp add: process_def Let_def fresh_node_def drain_empty)

text \<open>
  C1 (as amended). Between two calls of \<open>process\<close> the queue holds nothing (the first
  call drained it). When the \<open>N \<ge> 1\<close> payloads pushed since then do not exceed the
  queue's bound, the drain at the start of the next call leaves the queue empty and the
  node's convolver is the last payload pushed; the call renders exactly as it would had
  that payload alone been adopted, so the other \<open>N - 1\<close> payloads play no part. The
  drain is a total function: it always returns.
\<close>

theorem drain_to_latest:
  assumes "ps \<noteq> []" and "length ps \<le> capacity (convolverQueue n)"
  shows "convolver (drain (pushes (fst (process cp n ctx0)) ps)) = last ps
       \<and> items (convolverQueue (drain (pushes (fst (process cp n ctx0)) ps))) = []
       \<and> process cp (pushes (fst (process cp n ctx0)) ps) ctx
           = process cp ((fst (process cp n ctx0))\<lparr>convolver := last ps\<rparr>) ctx"
proof -
  let ?n0 = "fst (process cp n ctx0)"
  have e: "items (convolverQueue ?n0) = []" by (rule process_items)
  have c: "capacity (convolverQueue ?n0) = capacity (convolverQueue n)" by (rule process_capacity)
  have f: "foldl push (convolverQueue ?n0) ps = (convolverQueue ?n0)\<lparr>items := ps\<rparr>"
    using foldl_push [of "convolverQueue ?n0" ps] e c assms(2) by simp
  have q: "(convolverQueue ?n0)\<lparr>items := []\<rparr> = convolverQueue ?n0"
    using e by (metis SingleWriterSingleReaderQueue.surjective SingleWriterSingleReaderQueue.update_convs(2))
  have d: "drain (pushes ?n0 ps) = ?n0\<lparr>convolver := last ps\<rparr>"
    using assms(1) by (simp add: drain_eq pushes_def f q)
  have d': "drain (?n0\<lparr>convolver := last ps\<rparr>) = ?n0\<lparr>convolver := last ps\<rparr>"
    using e by (simp add: drain_empty)
  have "process cp (pushes ?n0 ps) ctx = process cp (?n0\<lparr>convolver := last ps\<rparr>) ctx"
    by (rule process_cong_drain) (simp only: d d')
  with e show ?thesis
    by (simp add: d)
qed

theorem drain_to_latest_witness:
  "[Some [1], Some [2], Some [3]] \<noteq> [] \<and> length [Some [1::int], Some [2], Some [3]] \<le> capacity (convolverQueue (fresh_node 4))
   \<and> convolver (drain (pushes (fst (process copy_process (fresh_node 4) no_input_ctx))
        [Some [1], Some [2], Some [3]])) = Some [3]
   \<and> snd (process copy_process (pushes (fst (process copy_process (fresh_node 4) no_input_ctx))
        [Some [1], Some [2], Some [3]]) mono_ctx) = [1, 2, 3, 9]"
  using drain_to_latest [of "[Some [1], Some [2], Some [3]]" "fresh_node 4" copy_process no_input_ctx mono_ctx]
  by (simp add: process_fresh_node)
     (simp add: fresh_node_def process_def drain_empty copy_process_def mono_ctx_def)

text \<open>
  C1 as stated fails: the queue is bounded and a push beyond the bound is dropped. With
  a bound of one, two payloads pushed between two calls of \<open>process\<close> leave the first
  one as the node's convolver, not the last one pushed.
\<close>

theorem drain_to_latest_counterexample:
  "convolver (drain (pushes (fst (process copy_process (fresh_node 1) no_input_ctx)) [Some [1], Some [2]]))
     \<noteq> last [Some [1], Some [2]]"
  by (simp add: process_fresh_node pushes_def push_def drain_eq)
     (simp add: fresh_node_def push_def)

text \<open>
  C2. When the block context has no input channel, or the node has no convolver and
  none is waiting in its queue (no configuration has completed), \<open>process\<close> returns
  with the first \<open>numSamples\<close> samples of the output buffer zero and the samples after
  them as they were, for every \<open>numSamples\<close>.
\<close>

theorem process_silence:
  assumes "BlockContext.numInputChannels ctx = 0 \<or> (convolver n = None \<and> items (convolverQueue n) = [])"
  shows "take (numSamples ctx) (snd (process cp n ctx)) = replicate (numSamples ctx) 0
       \<and> drop (numSamples ctx) (snd (process cp n ctx)) = drop (numSamples ctx) (outputData ctx)"
  using assms by (auto simp: process_def Let_def fill_n_def drain_empty)

theorem process_silence_witness:
  "(BlockContext.numInputChannels no_input_ctx = 0
      \<or> (convolver (fresh_node 4) = None \<and> items (convolverQueue (fresh_node 4)) = []))
   \<and> snd (process copy_process (fresh_node 4) no_input_ctx) = [0, 0, 0, 9]
   \<and> take (numSamples mono_ctx) (snd (process copy_process (fresh_node 4) mono_ctx)) = [0, 0, 0]"
  using process_silence [of no_input_ctx "fresh_node 4" copy_process]
    process_silence [of mono_ctx "fresh_node 4" copy_process]
  by (simp add: no_input_ctx_def mono_ctx_def fresh_node_def process_def drain_empty fill_n_def
      numeral_3_eq_3)

text \<open>
  C9. Two block contexts with the same \<open>numSamples\<close>, the same input channel 0 and
  the same output buffer, each with at least one input channel, give the same result
  from the same node: the same output buffer and the same node afterwards, whatever the
  other input channels hold and however many there are.
\<close>

theorem process_reads_channel_0_only:
  assumes "numSamples c1 = numSamples c2" and "inputData c1 ! 0 = inputData c2 ! 0"
    and "outputData c1 = outputData c2"
    and "1 \<le> BlockContext.numInputChannels c1" and "1 \<le> BlockContext.numInputChannels c2"
  shows "process cp n c1 = process cp n c2"
proof -
  have "BlockContext.numInputChannels c1 \<noteq> 0" "BlockContext.numInputChannels c2 \<noteq> 0" using assms by auto
  then show ?thesis
    unfolding process_def Let_def assms(1,2,3) by simp
qed

theorem process_reads_channel_0_only_witness:
  "numSamples mono_ctx = numSamples stereo_ctx \<and> inputData mono_ctx ! 0 = inputData stereo_ctx ! 0
   \<and> outputData mono_ctx = outputData stereo_ctx
   \<and> 1 \<le> BlockContext.numInputChannels mono_ctx \<and> 1 \<le> BlockContext.numInputChannels stereo_ctx
   \<and> inputData mono_ctx \<noteq> inputData stereo_ctx
   \<and> process copy_process ((fresh_node 4)\<lparr>convolver := Some [1]\<rparr>) mono_ctx
       = process copy_process ((fresh_node 4)\<lparr>convolver := Some [1]\<rparr>) stereo_ctx"
  using process_reads_channel_0_only [of mono_ctx stereo_ctx copy_process "(fresh_node 4)\<lparr>convolver := Some [1]\<rparr>"]
  by (simp add: mono_ctx_def stereo_ctx_def)

text \<open>
  C3 (as amended). A call \<open>setProperty("path", v, resources)\<close> whose \<open>v\<close> is a string
  naming no entry of the shared resource map fails with the invariant violation
  "failed to find a resource at the given path" (the specification's ResourceNotFound).
  It leaves the node's convolver and its handoff queue as they were, nothing is pushed;
  the property store has by then recorded \<open>v\<close> under "path".
\<close>

theorem setProperty_missing_resource:
  assumes "resources p = None"
  shows "setProperty init n ''path'' (String p) resources
           = (Inl (InvariantViolation ''failed to find a resource at the given path''),
              n\<lparr>props := (props n)(''path'' \<mapsto> String p)\<rparr>)
       \<and> convolver (snd (setProperty init n ''path'' (String p) resources)) = convolver n
       \<and> convolverQueue (snd (setProperty init n ''path'' (String p) resources)) = convolverQueue n"
  using assms
  by (simp add: setProperty_def invariant_def has_def GraphNode_setProperty_def)

theorem setProperty_missing_resource_witness:
  "(Map.empty :: int SharedResourceMap) ''/ir/hall.wav'' = None
   \<and> fst (setProperty init_ir (fresh_node 4) ''path'' (String ''/ir/hall.wav'') Map.empty)
       = Inl (InvariantViolation ''failed to find a resource at the given path'')
   \<and> convolver (snd (setProperty init_ir (fresh_node 4) ''path'' (String ''/ir/hall.wav'') Map.empty)) = None
   \<and> items (convolverQueue (snd (setProperty init_ir (fresh_node 4) ''path'' (String ''/ir/hall.wav'') Map.empty))) = []"
  using setProperty_missing_resource [of Map.empty "''/ir/hall.wav''" init_ir "fresh_node 4"]
  by (simp add: fresh_node_def)

text \<open>
  C3 as stated fails: the base class's \<open>setProperty\<close> runs first and writes the
  property store, so after the failed call the node is not the node it was.
\<close>

theorem setProperty_missing_resource_counterexample:
  "fst (setProperty init_ir (fresh_node 4) ''path'' (String ''/ir/hall.wav'') Map.empty)
     = Inl (InvariantViolation ''failed to find a resource at the given path'')
   \<and> snd (setProperty init_ir (fresh_node 4) ''path'' (String ''/ir/hall.wav'') Map.empty) \<noteq> fresh_node 4
   \<and> props (snd (setProperty init_ir (fresh_node 4) ''path'' (String ''/ir/hall.wav'') Map.empty)) ''path''
       = Some (String ''/ir/hall.wav'')
   \<and> props (fresh_node 4) ''path'' = None"
proof -
  let ?r = "setProperty init_ir (fresh_node 4) ''path'' (String ''/ir/hall.wav'') Map.empty"
  have 1: "fst ?r = Inl (InvariantViolation ''failed to find a resource at the given path'')"
    by (simp add: setProperty_def invariant_def has_def)
  have 2: "props (snd ?r) ''path'' = Some (String ''/ir/hall.wav'')"
    by (simp add: setProperty_def invariant_def has_def GraphNode_setProperty_def)
  have 3: "props (fresh_node 4) ''path'' = None"
    by (simp add: fresh_node_def)
  from 2 3 have "snd ?r \<noteq> fresh_node 4" by auto
  with 1 2 3 show ?thesis by blast
qed

text \<open>
  C5 (as amended). For the key "path": a value that is not a string fails with the
  invariant violation "path prop must be a string" (the specification's InvalidProperty);
  a string naming no entry of the shared resource map fails with "failed to find a
  resource at the given path" (ResourceNotFound); a string naming an entry succeeds, and
  a convolver newly built from that entry's buffer is pushed to the handoff queue: when
  the queue is below its bound the convolver is enqueued as the queue's newest item, and
  when the queue is at its bound the call succeeds all the same and the queue, which
  drops the convolver, stays as it is.
\<close>

theorem setProperty_path_validation:
  "(\<not> isString val \<longrightarrow>
      fst (setProperty init n ''path'' val resources)
        = Inl (InvariantViolation ''path prop must be a string''))
   \<and> (\<forall>p. val = String p \<and> \<not> has resources p \<longrightarrow>
        fst (setProperty init n ''path'' val resources)
          = Inl (InvariantViolation ''failed to find a resource at the given path''))
   \<and> (\<forall>p ref. val = String p \<and> resources p = Some ref \<longrightarrow>
        setProperty init n ''path'' val resources
          = (Inr (), n\<lparr>props := (props n)(''path'' \<mapsto> val),
                         convolverQueue := push (convolverQueue n) (Some (init 512 4096 ref))\<rparr>)
        \<and> (length (items (convolverQueue n)) < capacity (convolverQueue n) \<longrightarrow>
             items (convolverQueue (snd (setProperty init n ''path'' val resources)))
               = items (convolverQueue n) @ [Some (init 512 4096 ref)])
        \<and> (\<not> length (items (convolverQueue n)) < capacity (convolverQueue n) \<longrightarrow>
             convolverQueue (snd (setProperty init n ''path'' val resources)) = convolverQueue n))"
  by (cases val)
     (auto simp: setProperty_def invariant_def has_def GraphNode_setProperty_def Let_def push_def)

theorem setProperty_path_validation_witness:
  "\<not> isString (Number 3 :: (nat, int) Value)
   \<and> fst (setProperty init_ir (fresh_node 4) ''path'' (Number 3) [''/ir/hall.wav'' \<mapsto> [1, 0, 2]])
       = Inl (InvariantViolation ''path prop must be a string'')
   \<and> \<not> has [''/ir/hall.wav'' \<mapsto> [1, 0, 2::int]] ''/ir/room.wav''
   \<and> fst (setProperty init_ir (fresh_node 4) ''path'' (String ''/ir/room.wav'') [''/ir/hall.wav'' \<mapsto> [1, 0, 2]])
       = Inl (InvariantViolation ''failed to find a resource at the given path'')
   \<and> [''/ir/hall.wav'' \<mapsto> [1, 0, 2::int]] ''/ir/hall.wav'' = Some [1, 0, 2]
   \<and> length (items (convolverQueue (fresh_node 4))) < capacity (convolverQueue (fresh_node 4))
   \<and> fst (setProperty init_ir (fresh_node 4) ''path'' (String ''/ir/hall.wav'') [''/ir/hall.wav'' \<mapsto> [1, 0, 2]])
       = Inr ()
   \<and> items (convolverQueue (snd (setProperty init_ir (fresh_node 4) ''path'' (String ''/ir/hall.wav'')
         [''/ir/hall.wav'' \<mapsto> [1, 0, 2]]))) = [Some [1, 0, 2]]
   \<and> \<not> length (items (convolverQueue (pushes (fresh_node 1) [Some [7]])))
         < capacity (convolverQueue (pushes (fresh_node 1) [Some [7]]))
   \<and> convolverQueue (snd (setProperty init_ir (pushes (fresh_node 1) [Some [7]]) ''path''
         (String ''/ir/hall.wav'') [''/ir/hall.wav'' \<mapsto> [1, 0, 2]]))
       = convolverQueue (pushes (fresh_node 1) [Some [7]])"
  using setProperty_path_validation [of "Number 3" init_ir "fresh_node 4" "[''/ir/hall.wav'' \<mapsto> [1, 0, 2]]"]
    setProperty_path_validation [of "String ''/ir/room.wav''" init_ir "fresh_node 4" "[''/ir/hall.wav'' \<mapsto> [1, 0, 2]]"]
    setProperty_path_validation [of "String ''/ir/hall.wav''" init_ir "fresh_node 4" "[''/ir/hall.wav'' \<mapsto> [1, 0, 2]]"]
    setProperty_path_validation [of "String ''/ir/hall.wav''" init_ir "pushes (fresh_node 1) [Some [7]]"
      "[''/ir/hall.wav'' \<mapsto> [1, 0, 2]]"]
  by (simp add: has_def) (simp add: fresh_node_def push_def init_ir_def pushes_def)

text \<open>
  C5 as stated fails: on a node whose queue, of bound one, already holds a payload, the
  call with a string naming an entry succeeds, but the queue is left as it was and the
  newly built convolver is not on it.
\<close>

theorem setProperty_path_validation_counterexample:
  "fst (setProperty init_ir (pushes (fresh_node 1) [Some [7]]) ''path'' (String ''/ir/hall.wav'')
         [''/ir/hall.wav'' \<mapsto> [1, 0, 2]]) = Inr ()
   \<and> items (convolverQueue (pushes (fresh_node 1) [Some [7]])) = [Some [7]]
   \<and> items (convolverQueue (snd (setProperty init_ir (pushes (fresh_node 1) [Some [7]]) ''path''
         (String ''/ir/hall.wav'') [''/ir/hall.wav'' \<mapsto> [1, 0, 2]]))) = [Some [7]]
   \<and> Some (init_ir 512 4096 [1, 0, 2])
        \<notin> set (items (convolverQueue (snd (setProperty init_ir (pushes (fresh_node 1) [Some [7]]) ''path''
              (String ''/ir/hall.wav'') [''/ir/hall.wav'' \<mapsto> [1, 0, 2]]))))"
  by (simp add: setProperty_def invariant_def has_def GraphNode_setProperty_def Let_def
      pushes_def fresh_node_def push_def init_ir_def)

lemma those_map_Some: "(\<And>x. x \<in> set xs \<Longrightarrow> f x = Some (g x)) \<Longrightarrow> those (map f xs) = Some (map g xs)"
  by (induction xs) simp_all

lemma those_map_SomeD: "those (map f xs) = Some ys \<Longrightarrow> x \<in> set xs \<Longrightarrow> \<exists>y. f x = Some y"
  by (induction xs arbitrary: ys) (auto split: option.splits)

lemma those_length: "those os = Some ys \<Longrightarrow> length ys = length os"
  by (induction os arbitrary: ys) (auto split: option.splits)

lemma emValToValue_Suc: "emValToValue k h v = Some x \<Longrightarrow> emValToValue (Suc k) h v = Some x"
proof (induction k arbitrary: v x)
  case 0
  then show ?case by simp
next
  case (Suc k)
  have m: "map (emValToValue (Suc k) h) xs = map (emValToValue k h) xs"
    if "those (map (emValToValue k h) xs) = Some ys" for xs ys
  proof (rule map_cong [OF refl])
    fix a assume "a \<in> set xs"
    with that obtain y where "emValToValue k h a = Some y" by (blast dest: those_map_SomeD)
    with Suc.IH show "emValToValue (Suc k) h a = emValToValue k h a" by simp
  qed
  have m': "map (\<lambda>e. map_option (Pair (fst e)) (emValToValue (Suc k) h (snd e))) es
          = map (\<lambda>e. map_option (Pair (fst e)) (emValToValue k h (snd e))) es"
    if "those (map (\<lambda>e. map_option (Pair (fst e)) (emValToValue k h (snd e))) es) = Some ys" for es ys
  proof (rule map_cong [OF refl])
    fix a assume "a \<in> set es"
    with that obtain y where "map_option (Pair (fst a)) (emValToValue k h (snd a)) = Some y"
      by (blast dest: those_map_SomeD)
    then obtain z where "emValToValue k h (snd a) = Some z" by auto
    with Suc.IH show "map_option (Pair (fst a)) (emValToValue (Suc k) h (snd a))
       = map_option (Pair (fst a)) (emValToValue k h (snd a))" by simp
  qed
  from Suc.prems show ?case
    by (subst emValToValue.simps(2), subst (asm) emValToValue.simps(2))
       (auto split: val.splits option.splits host_object.splits simp: m m' simp del: emValToValue.simps)
qed

lemma emValToValue_add: "emValToValue k h v = Some x \<Longrightarrow> emValToValue (k + d) h v = Some x"
  by (induction d) (simp_all del: emValToValue.simps add: emValToValue_Suc)

lemma emValToValue_mono: "emValToValue k h v = Some x \<Longrightarrow> k \<le> k' \<Longrightarrow> emValToValue k' h v = Some x"
  using emValToValue_add [of k h v x "k' - k"] by simp

lemma fst_set_foldl_map_insert:
  "fst ` set (foldl map_insert m kvs) = fst ` set m \<union> fst ` set kvs"
  by (induction kvs arbitrary: m) (auto simp: map_insert_def)

lemma common_bound:
  assumes "\<And>x. x \<in> set xs \<Longrightarrow> \<exists>k y. emValToValue k h (sel x) = Some y \<and> P x y"
  shows "\<exists>K. \<forall>x \<in> set xs. \<exists>y. emValToValue K h (sel x) = Some y \<and> P x y"
  using assms
proof (induction xs)
  case Nil
  then show ?case by simp
next
  case (Cons a xs)
  then obtain K where K: "\<forall>x \<in> set xs. \<exists>y. emValToValue K h (sel x) = Some y \<and> P x y" by auto
  from Cons.prems [of a] obtain k y where k: "emValToValue k h (sel a) = Some y" and p: "P a y" by auto
  have "\<forall>x \<in> set (a # xs). \<exists>y. emValToValue (max k K) h (sel x) = Some y \<and> P x y"
  proof
    fix x assume "x \<in> set (a # xs)"
    then consider "x = a" | "x \<in> set xs" by auto
    then show "\<exists>y. emValToValue (max k K) h (sel x) = Some y \<and> P x y"
    proof cases
      case 1
      from emValToValue_mono [OF k, of "max k K"] 1 p show ?thesis by simp
    next
      case 2
      with K obtain z where "emValToValue K h (sel x) = Some z" and "P x z" by auto
      with emValToValue_mono [of K h "sel x" z "max k K"] show ?thesis by simp
    qed
  qed
  then show ?case ..
qed

lemma finite_val_converts:
  "finite_val h v \<Longrightarrow> \<exists>k x. emValToValue k h v = Some x \<and> converts_to h v x"
proof (induction rule: finite_val.induct)
  case (primitive v)
  then have "\<exists>x. emValToValue (Suc 0) h v = Some x \<and> converts_to h v x"
    by (cases v) (auto intro: converts_to.intros)
  then show ?case by blast
next
  case (array r xs)
  then have "\<And>x. x \<in> set xs \<Longrightarrow> \<exists>k y. emValToValue k h x = Some y \<and> converts_to h x y" by blast
  from common_bound [of xs h "\<lambda>x. x" "converts_to h", OF this]
  obtain K where K: "\<forall>x \<in> set xs. \<exists>y. emValToValue K h x = Some y \<and> converts_to h x y" by auto
  let ?ys = "map (\<lambda>x. the (emValToValue K h x)) xs"
  have "those (map (emValToValue K h) xs) = Some ?ys"
    by (rule those_map_Some) (use K in auto)
  with array.hyps have "emValToValue (Suc K) h (val_object r) = Some (Array ?ys)"
    by simp
  moreover have "list_all2 (converts_to h) xs ?ys"
    unfolding list_all2_map2 list_all2_same using K by auto
  with array.hyps(1) have "converts_to h (val_object r) (Array ?ys)"
    by (rule converts_to.conv_array)
  ultimately show ?case by blast
next
  case (plain r es)
  then have "\<And>e. e \<in> set es \<Longrightarrow> \<exists>k y. emValToValue k h (snd e) = Some y \<and> converts_to h (snd e) y"
    by blast
  from common_bound [of es h snd "\<lambda>e. converts_to h (snd e)", OF this]
  obtain K where K: "\<forall>e \<in> set es. \<exists>y. emValToValue K h (snd e) = Some y \<and> converts_to h (snd e) y"
    by auto
  let ?kvs = "map (\<lambda>e. (fst e, the (emValToValue K h (snd e)))) es"
  have "those (map (\<lambda>e. map_option (Pair (fst e)) (emValToValue K h (snd e))) es) = Some ?kvs"
    by (rule those_map_Some) (use K in auto)
  with plain.hyps have "emValToValue (Suc K) h (val_object r) = Some (Object (foldl map_insert [] ?kvs))"
    by simp
  moreover have "list_all2 (\<lambda>e kv. fst kv = fst e \<and> converts_to h (snd e) (snd kv)) es ?kvs"
    unfolding list_all2_map2 list_all2_same using K by auto
  with plain.hyps(1) have "converts_to h (val_object r) (Object (foldl map_insert [] ?kvs))"
    by (rule converts_to.conv_object)
  ultimately show ?case by blast
next
  case (leaf r)
  then have "\<exists>x. emValToValue (Suc 0) h (val_object r) = Some x \<and> converts_to h (val_object r) x"
    by (cases "h r"; cases "the (h r)") (auto intro: converts_to.intros)
  then show ?case by blast
qed

text \<open>
  What a host value converts to is unique, so \<open>converts_to\<close> names one dynamic value
  for each finite host value.
\<close>

lemma converts_to_unique: "converts_to h v x \<Longrightarrow> converts_to h v y \<Longrightarrow> x = y"
proof (induction arbitrary: y rule: converts_to.induct)
  case (conv_array r xs ys)
  from conv_array.prems conv_array.hyps(1) obtain zs
    where y: "y = Array zs" and z: "list_all2 (converts_to h) xs zs"
    by (cases rule: converts_to.cases) auto
  from conv_array.IH z have "ys = zs"
  proof (induction xs ys arbitrary: zs rule: list_all2_induct)
    case Nil
    then show ?case by simp
  next
    case (Cons a xs b ys)
    from Cons.prems obtain c cs where "zs = c # cs" "converts_to h a c" "list_all2 (converts_to h) xs cs"
      by (cases zs) auto
    with Cons show ?case by auto
  qed
  with y show ?case by simp
next
  case (conv_object r es kvs)
  from conv_object.prems conv_object.hyps(1) obtain kvs'
    where y: "y = Object (foldl map_insert [] kvs')"
      and z: "list_all2 (\<lambda>e kv. fst kv = fst e \<and> converts_to h (snd e) (snd kv)) es kvs'"
    by (cases rule: converts_to.cases) auto
  from conv_object.IH z have "kvs = kvs'"
  proof (induction es kvs arbitrary: kvs' rule: list_all2_induct)
    case Nil
    then show ?case by simp
  next
    case (Cons e es kv kvs)
    from Cons.prems obtain c cs where c: "kvs' = c # cs" "fst c = fst e" "converts_to h (snd e) (snd c)"
      "list_all2 (\<lambda>e kv. fst kv = fst e \<and> converts_to h (snd e) (snd kv)) es cs"
      by (cases kvs') auto
    with Cons have "snd kv = snd c" "fst kv = fst c" "kvs = cs" by auto
    with c show ?case by (simp add: prod_eq_iff)
  qed
  with y show ?case by simp
qed (auto elim: converts_to.cases)


lemma cyclic_object_never_converts: "emValToValue k cyclic_heap (val_object 1) = None"
  by (induction k) (simp_all add: cyclic_heap_def)




section \<open>Properties of the audio processor\<close>

lemma push_back_buffers_eq:
  "push_back_buffers i n m bufs = bufs @ replicate (n - i) (replicate m 0)"
proof (induction i n m bufs rule: push_back_buffers.induct)
  case (1 i n m bufs)
  show ?case
  proof (cases "i < n")
    case True
    then have "n - i = Suc (n - Suc i)" by simp
    with True "1" show ?thesis
      by (subst push_back_buffers.simps) (simp add: replicate_app_Cons_same)
  next
    case False
    then show ?thesis by (subst push_back_buffers.simps) simp
  qed
qed

lemma push_back_pointers_eq: "push_back_pointers i n ptrs = ptrs @ [i..<n]"
proof (induction i n ptrs rule: push_back_pointers.induct)
  case (1 i n ptrs)
  show ?case
  proof (cases "i < n")
    case True
    with "1" show ?thesis
      by (subst push_back_pointers.simps) (simp add: upt_rec [of i n])
  next
    case False
    then show ?thesis by (subst push_back_pointers.simps) simp
  qed
qed

lemma prepare_fields:
  "sampleTime (prepare g p sr bsz) = sampleTime p"
  "numInputChannels (prepare g p sr bsz) = numInputChannels p"
  "numOutputChannels (prepare g p sr bsz) = numOutputChannels p"
  "scratchBuffers (prepare g p sr bsz)
     = replicate (unat (numInputChannels p + numOutputChannels p)) (replicate (unat bsz) 0)"
  "scratchPointers (prepare g p sr bsz) = [0..<unat (numInputChannels p + numOutputChannels p)]"
  by (simp_all add: prepare_def Let_def push_back_buffers_eq push_back_pointers_eq)

lemma prepare_runtime:
  "runtime (prepare g p sr bsz) =
     Some \<lparr>rt_sampleRate = sr, rt_blockSize = bsz,
           nodeFactory = [''convolve'' \<mapsto> make_shared ConvolutionNodeClass,
                          ''fft'' \<mapsto> make_shared FFTNodeClass,
                          ''metro'' \<mapsto> make_shared MetronomeNodeClass,
                          ''time'' \<mapsto> make_shared SampleTimeNodeClass],
           sharedResourceMap = Map.empty, graph = g\<rparr>"
  by (simp add: prepare_def Let_def new_Runtime_def registerNodeType_def)

text \<open>
  C4 (as amended). \<open>prepare\<close> leaves the sample-time counter at the value it had
  before the call: the \<open>process\<close> call that follows hands the runtime that value as
  the sample time, and returns with the counter advanced by its number of samples.
  \<open>prepare\<close> allocates anew one scratch buffer of \<open>maxBlockSize\<close> zeros for each of
  the input and output channels.
\<close>

theorem prepare_keeps_sampleTime:
  "sampleTime (prepare g p sr maxBlockSize) = sampleTime p
   \<and> scratchBuffers (prepare g p sr maxBlockSize)
       = replicate (unat (numInputChannels p + numOutputChannels p)) (replicate (unat maxBlockSize) 0)
   \<and> ElementaryAudioProcessor_process rprocess (prepare g p sr maxBlockSize) nSamples
       = (case rprocess (the (runtime (prepare g p sr maxBlockSize)))
                 (map (nth (scratchBuffers (prepare g p sr maxBlockSize)))
                    (take (unat (numInputChannels p)) (scratchPointers (prepare g p sr maxBlockSize))))
                 (numInputChannels p)
                 (map (nth (scratchBuffers (prepare g p sr maxBlockSize)))
                    (drop (unat (numInputChannels p)) (scratchPointers (prepare g p sr maxBlockSize))))
                 (numOutputChannels p) nSamples (sampleTime p) of
            (rt', written) \<Rightarrow>
              (Returns,
               (prepare g p sr maxBlockSize)
                 \<lparr>runtime := Some rt',
                  scratchBuffers := write_back (scratchBuffers (prepare g p sr maxBlockSize))
                     (drop (unat (numInputChannels p)) (scratchPointers (prepare g p sr maxBlockSize))) written,
                  sampleTime := sampleTime p + scast nSamples\<rparr>))"
  by (simp add: prepare_fields(1-3) ElementaryAudioProcessor_process_def prepare_runtime Let_def
      del: fun_upd_apply)
     (simp add: prepare_fields(4))

lemma played_processor_sampleTime: "sampleTime played_processor = 64"
  by (simp add: played_processor_def prepared_processor_def ElementaryAudioProcessor_process_def
      prepare_runtime prepare_fields Let_def recording_process_def stereo_processor_def
      new_ElementaryAudioProcessor_def split: prod.splits)

text \<open>
  C4 as stated fails: a processor that has rendered one block of 64 samples and is
  prepared again still counts 64, and the first \<open>process\<close> call after that
  \<open>prepare\<close> hands the runtime the sample time 64, not 0.
\<close>

theorem prepare_keeps_sampleTime_counterexample:
  "sampleTime (prepare [] played_processor 44100 512) = 64
   \<and> sampleTime (prepare [] played_processor 44100 512) \<noteq> 0
   \<and> map_option graph (runtime (snd (ElementaryAudioProcessor_process recording_process
         (prepare [] played_processor 44100 512) 64))) = Some [64]"
  by (simp add: prepare_fields played_processor_sampleTime)
     (simp add: ElementaryAudioProcessor_process_def prepare_runtime prepare_fields Let_def
        recording_process_def played_processor_sampleTime split: prod.splits)






lemma postMessageBatch_not_array:
  "emValToValue k h payload = Some v \<Longrightarrow> \<not> isArray v \<Longrightarrow>
     postMessageBatch k h applyInstructions p payload
       = Some (Returns, p, [ErrorCallback [''error'', ''Malformed message batch.'']])"
  by (cases v) (simp_all add: postMessageBatch_def)

lemma postMessageBatch_raises:
  "emValToValue k h payload = Some (Array batch) \<Longrightarrow> runtime p = Some rt \<Longrightarrow>
   applyInstructions rt batch = (Inl e, rt') \<Longrightarrow>
     postMessageBatch k h applyInstructions p payload
       = Some (Returns, p\<lparr>runtime := Some rt'\<rparr>,
               [ApplyInstructions batch,
                ErrorCallback [''error'',
                  (case e of InvariantViolation what \<Rightarrow> what
                   | bad_variant_access \<Rightarrow> ''Bad variant access''
                   | other_exception x \<Rightarrow> ''Unhandled exception'')]])"
  by (cases e) (simp_all add: postMessageBatch_def)

lemma postMessageBatch_never_returns:
  "emValToValue k h payload = None \<Longrightarrow> postMessageBatch k h applyInstructions p payload = None"
  by (simp add: postMessageBatch_def)

text \<open>
  C6 (as amended). For every finite payload the conversion returns a value, and then:
  if that value is not an array, \<open>postMessageBatch\<close> returns normally having called the
  error callback exactly once, with the tag "error" and the message "Malformed message
  batch.", and never calls the runtime's \<open>applyInstructions\<close>; if it is an array and
  applying it raises an exception, whichever, \<open>postMessageBatch\<close> returns normally
  having called the error callback exactly once after that, with the tag "error" and
  the exception's message, "Bad variant access" or "Unhandled exception".
\<close>

theorem postMessageBatch_reports_errors:
  assumes "finite_val h payload"
  shows "\<exists>k v. emValToValue k h payload = Some v
     \<and> (\<not> isArray v \<longrightarrow>
          postMessageBatch k h applyInstructions p payload
            = Some (Returns, p, [ErrorCallback [''error'', ''Malformed message batch.'']]))
     \<and> (\<forall>batch rt e rt'. v = Array batch \<and> runtime p = Some rt \<and> applyInstructions rt batch = (Inl e, rt') \<longrightarrow>
          postMessageBatch k h applyInstructions p payload
            = Some (Returns, p\<lparr>runtime := Some rt'\<rparr>,
                    [ApplyInstructions batch,
                     ErrorCallback [''error'',
                       (case e of InvariantViolation what \<Rightarrow> what
                        | bad_variant_access \<Rightarrow> ''Bad variant access''
                        | other_exception x \<Rightarrow> ''Unhandled exception'')]]))"
proof -
  from finite_val_converts [OF assms] obtain k v where c: "emValToValue k h payload = Some v"
    by blast
  have 1: "\<not> isArray v \<longrightarrow>
      postMessageBatch k h applyInstructions p payload
        = Some (Returns, p, [ErrorCallback [''error'', ''Malformed message batch.'']])"
    using postMessageBatch_not_array [OF c] by blast
  have 2: "\<forall>batch rt e rt'. v = Array batch \<and> runtime p = Some rt \<and> applyInstructions rt batch = (Inl e, rt') \<longrightarrow>
      postMessageBatch k h applyInstructions p payload
        = Some (Returns, p\<lparr>runtime := Some rt'\<rparr>,
                [ApplyInstructions batch,
                 ErrorCallback [''error'',
                   (case e of InvariantViolation what \<Rightarrow> what
                    | bad_variant_access \<Rightarrow> ''Bad variant access''
                    | other_exception x \<Rightarrow> ''Unhandled exception'')]])"
    using c by (auto intro: postMessageBatch_raises)
  from c 1 2 show ?thesis by blast
qed

lemma finite_batch_heap_1: "finite_val batch_heap (val_object 1)"
  by (rule finite_val.plain [where es = "[(''path'', val_string ''/ir/hall.wav''), (''on'', val_true)]"])
     (auto simp: batch_heap_def intro: finite_val.primitive)

lemma finite_batch_heap_numbers: "finite_val batch_heap (val_object 4)"
  by (rule finite_val.array [where xs = "[val_number 1, val_number 0, val_number 2]"])
     (auto simp: batch_heap_def intro: finite_val.primitive)

lemma prepared_processor_runtime:
  "runtime prepared_processor =
     Some \<lparr>rt_sampleRate = 44100, rt_blockSize = 512,
           nodeFactory = [''convolve'' \<mapsto> make_shared ConvolutionNodeClass,
                          ''fft'' \<mapsto> make_shared FFTNodeClass,
                          ''metro'' \<mapsto> make_shared MetronomeNodeClass,
                          ''time'' \<mapsto> make_shared SampleTimeNodeClass],
           sharedResourceMap = Map.empty, graph = []\<rparr>"
  unfolding prepared_processor_def by (rule prepare_runtime)

theorem postMessageBatch_reports_errors_witness:
  "finite_val batch_heap (val_object 1)
   \<and> postMessageBatch 2 batch_heap failing_applyInstructions prepared_processor (val_object 1)
       = Some (Returns, prepared_processor, [ErrorCallback [''error'', ''Malformed message batch.'']])
   \<and> finite_val batch_heap (val_object 4)
   \<and> map_option (\<lambda>r. (fst r, snd (snd r)))
        (postMessageBatch 2 batch_heap failing_applyInstructions prepared_processor (val_object 4))
       = Some (Returns, [ApplyInstructions [Number 1, Number 0, Number 2],
                         ErrorCallback [''error'', ''Malformed instruction'']])
   \<and> (\<exists>k v. emValToValue k batch_heap (val_object 1) = Some v
        \<and> (\<not> isArray v \<longrightarrow>
             postMessageBatch k batch_heap failing_applyInstructions prepared_processor (val_object 1)
               = Some (Returns, prepared_processor, [ErrorCallback [''error'', ''Malformed message batch.'']])))"
proof -
  have a: "postMessageBatch 2 batch_heap failing_applyInstructions prepared_processor (val_object 1)
       = Some (Returns, prepared_processor, [ErrorCallback [''error'', ''Malformed message batch.'']])"
    by (rule postMessageBatch_not_array [where v = "Object [(''path'', String ''/ir/hall.wav''), (''on'', Boolean True)]"])
       (simp_all add: numeral_2_eq_2 batch_heap_def map_insert_def)
  have c: "emValToValue 2 batch_heap (val_object 4) = Some (Array [Number 1, Number 0, Number 2])"
    by (simp add: numeral_2_eq_2 batch_heap_def)
  have b: "map_option (\<lambda>r. (fst r, snd (snd r)))
        (postMessageBatch 2 batch_heap failing_applyInstructions prepared_processor (val_object 4))
       = Some (Returns, [ApplyInstructions [Number 1, Number 0, Number 2],
                         ErrorCallback [''error'', ''Malformed instruction'']])"
    by (subst postMessageBatch_raises [OF c prepared_processor_runtime, where e = "InvariantViolation ''Malformed instruction''"])
       (simp_all add: failing_applyInstructions_def)
  from postMessageBatch_reports_errors [OF finite_batch_heap_1, of failing_applyInstructions prepared_processor]
  obtain k v where "emValToValue k batch_heap (val_object 1) = Some v"
    and "\<not> isArray v \<longrightarrow>
             postMessageBatch k batch_heap failing_applyInstructions prepared_processor (val_object 1)
               = Some (Returns, prepared_processor, [ErrorCallback [''error'', ''Malformed message batch.'']])"
    by (elim exE conjE)
  then have e: "\<exists>k v. emValToValue k batch_heap (val_object 1) = Some v
        \<and> (\<not> isArray v \<longrightarrow>
             postMessageBatch k batch_heap failing_applyInstructions prepared_processor (val_object 1)
               = Some (Returns, prepared_processor, [ErrorCallback [''error'', ''Malformed message batch.'']]))"
    by (intro exI [of _ k] exI [of _ v] conjI)
  from finite_batch_heap_1 a finite_batch_heap_numbers b e show ?thesis
    by (intro conjI)
qed

text \<open>
  C6 as stated fails: a payload that is an object holding itself is not an array, yet
  its conversion never returns, so \<open>postMessageBatch\<close> neither calls the error callback
  nor returns.
\<close>

theorem postMessageBatch_reports_errors_counterexample:
  "cyclic_heap 1 = Some (Plain_object [(''self'', val_object 1)])
   \<and> \<not> (\<exists>k r. postMessageBatch k cyclic_heap failing_applyInstructions prepared_processor (val_object 1) = Some r)"
proof -
  have 1: "cyclic_heap 1 = Some (Plain_object [(''self'', val_object 1)])"
    by (simp add: cyclic_heap_def)
  have n: "postMessageBatch k cyclic_heap failing_applyInstructions prepared_processor (val_object 1) = None" for k
    by (rule postMessageBatch_never_returns [OF cyclic_object_never_converts])
  have 2: "\<not> (\<exists>k r. postMessageBatch k cyclic_heap failing_applyInstructions prepared_processor (val_object 1) = Some r)"
  proof
    assume "\<exists>k r. postMessageBatch k cyclic_heap failing_applyInstructions prepared_processor (val_object 1) = Some r"
    then obtain k r
      where "postMessageBatch k cyclic_heap failing_applyInstructions prepared_processor (val_object 1) = Some r"
      by (elim exE)
    with n [of k] show False by simp
  qed
  from 1 2 show ?thesis by (rule conjI)
qed

lemma convert_children_numbers: "convert_children toFloat (map Number ds) = Inr (map toFloat ds)"
  by (induction ds) simp_all

lemma convert_children_fails:
  "\<exists>x \<in> set ar. \<not> isNumber x \<Longrightarrow> convert_children toFloat ar = Inl bad_variant_access"
proof (induction ar)
  case Nil
  then show ?case by simp
next
  case (Cons a ar)
  show ?case
  proof (cases a)
    case (Number d)
    with Cons.prems have "\<exists>x \<in> set ar. \<not> isNumber x" by simp
    with Cons.IH Number show ?thesis by simp
  qed simp_all
qed

lemma arrayToFloatVector_numbers: "arrayToFloatVector toFloat (map Number ds) = Inr (map toFloat ds)"
  by (simp add: arrayToFloatVector_def convert_children_numbers)

lemma arrayToFloatVector_fails:
  "\<exists>x \<in> set ar. \<not> isNumber x \<Longrightarrow>
     arrayToFloatVector toFloat ar
       = Inl (InvariantViolation ''Failed to convert Array to float vector; invalid array child!'')"
  by (simp add: arrayToFloatVector_def convert_children_fails)

lemma updateSharedResourceMap_cases:
  assumes "emValToValue k h path = Some pv" and "emValToValue k h buffer = Some b"
  shows "(\<not> isString pv \<longrightarrow>
            updateSharedResourceMap k h toFloat proc path buffer
              = Some (Returns, proc, [ErrorCallback [''Path must be a string type'']]))
       \<and> (isString pv \<and> \<not> isArray b \<and> \<not> isFloat32Array b \<longrightarrow>
            updateSharedResourceMap k h toFloat proc path buffer
              = Some (Returns, proc, [ErrorCallback [''Buffer argument must be an Array or Float32Array type'']]))
       \<and> (\<forall>ar. isString pv \<and> b = Array ar \<and> (\<exists>x \<in> set ar. \<not> isNumber x) \<longrightarrow>
            updateSharedResourceMap k h toFloat proc path buffer
              = Some (Returns, proc, [ErrorCallback [''Invalid buffer for updating resource map'']]))
       \<and> (\<forall>name ds rt. pv = String name \<and> b = Array (map Number ds) \<and> runtime proc = Some rt \<longrightarrow>
            updateSharedResourceMap k h toFloat proc path buffer
              = Some (Returns,
                      proc\<lparr>runtime := Some (rt\<lparr>sharedResourceMap := (sharedResourceMap rt)(name \<mapsto> map toFloat ds)\<rparr>)\<rparr>,
                      []))
       \<and> (\<forall>name xs rt. pv = String name \<and> b = Float32Array xs \<and> runtime proc = Some rt \<longrightarrow>
            updateSharedResourceMap k h toFloat proc path buffer
              = Some (Returns,
                      proc\<lparr>runtime := Some (rt\<lparr>sharedResourceMap := (sharedResourceMap rt)(name \<mapsto> xs)\<rparr>)\<rparr>,
                      []))"
proof (intro conjI allI impI)
  assume "\<not> isString pv"
  with assms show "updateSharedResourceMap k h toFloat proc path buffer
      = Some (Returns, proc, [ErrorCallback [''Path must be a string type'']])"
    by (simp add: updateSharedResourceMap_def)
next
  assume "isString pv \<and> \<not> isArray b \<and> \<not> isFloat32Array b"
  with assms show "updateSharedResourceMap k h toFloat proc path buffer
      = Some (Returns, proc, [ErrorCallback [''Buffer argument must be an Array or Float32Array type'']])"
    by (simp add: updateSharedResourceMap_def)
next
  fix ar
  assume "isString pv \<and> b = Array ar \<and> (\<exists>x \<in> set ar. \<not> isNumber x)"
  with assms show "updateSharedResourceMap k h toFloat proc path buffer
      = Some (Returns, proc, [ErrorCallback [''Invalid buffer for updating resource map'']])"
    by (simp add: updateSharedResourceMap_def arrayToFloatVector_fails)
next
  fix name ds rt
  assume "pv = String name \<and> b = Array (map Number ds) \<and> runtime proc = Some rt"
  with assms show "updateSharedResourceMap k h toFloat proc path buffer
      = Some (Returns,
              proc\<lparr>runtime := Some (rt\<lparr>sharedResourceMap := (sharedResourceMap rt)(name \<mapsto> map toFloat ds)\<rparr>)\<rparr>,
              [])"
    by (simp add: updateSharedResourceMap_def arrayToFloatVector_numbers Runtime_updateSharedResourceMap_def)
next
  fix name xs rt
  assume "pv = String name \<and> b = Float32Array xs \<and> runtime proc = Some rt"
  with assms show "updateSharedResourceMap k h toFloat proc path buffer
      = Some (Returns,
              proc\<lparr>runtime := Some (rt\<lparr>sharedResourceMap := (sharedResourceMap rt)(name \<mapsto> xs)\<rparr>)\<rparr>,
              [])"
    by (simp add: updateSharedResourceMap_def Runtime_updateSharedResourceMap_def)
qed

lemma updateSharedResourceMap_never_returns:
  "emValToValue k h path = None \<Longrightarrow> updateSharedResourceMap k h toFloat proc path buffer = None"
  by (simp add: updateSharedResourceMap_def)

lemma finite_val_convert_both:
  assumes "finite_val h v" and "finite_val h w"
  shows "\<exists>k x y. emValToValue k h v = Some x \<and> emValToValue k h w = Some y"
proof -
  from finite_val_converts [OF assms(1)] obtain k x where 1: "emValToValue k h v = Some x" by blast
  from finite_val_converts [OF assms(2)] obtain j y where 2: "emValToValue j h w = Some y" by blast
  from emValToValue_mono [OF 1, of "max k j"] emValToValue_mono [OF 2, of "max k j"]
  have "emValToValue (max k j) h v = Some x \<and> emValToValue (max k j) h w = Some y" by simp
  then show ?thesis by blast
qed

text \<open>
  C8 (as amended). For every call of \<open>updateSharedResourceMap\<close> with a finite path and
  a finite buffer both conversions return, and then: if the path is not a string, or the
  buffer is neither an array nor a typed float array, or it is an array with an element
  that is no number, the call returns having called the error callback once and leaves
  the processor, its shared resource map with it, unchanged; otherwise, on a prepared
  processor, the call returns without calling the error callback and the shared resource
  map holds the converted float buffer at that path, inserted or in place of the old one.
\<close>

theorem updateSharedResourceMap_validates:
  assumes "finite_val h path" and "finite_val h buffer"
  shows "\<exists>k pv b. emValToValue k h path = Some pv \<and> emValToValue k h buffer = Some b
       \<and> (\<not> isString pv \<longrightarrow>
            updateSharedResourceMap k h toFloat proc path buffer
              = Some (Returns, proc, [ErrorCallback [''Path must be a string type'']]))
       \<and> (isString pv \<and> \<not> isArray b \<and> \<not> isFloat32Array b \<longrightarrow>
            updateSharedResourceMap k h toFloat proc path buffer
              = Some (Returns, proc, [ErrorCallback [''Buffer argument must be an Array or Float32Array type'']]))
       \<and> (\<forall>ar. isString pv \<and> b = Array ar \<and> (\<exists>x \<in> set ar. \<not> isNumber x) \<longrightarrow>
            updateSharedResourceMap k h toFloat proc path buffer
              = Some (Returns, proc, [ErrorCallback [''Invalid buffer for updating resource map'']]))
       \<and> (\<forall>name ds rt. pv = String name \<and> b = Array (map Number ds) \<and> runtime proc = Some rt \<longrightarrow>
            updateSharedResourceMap k h toFloat proc path buffer
              = Some (Returns,
                      proc\<lparr>runtime := Some (rt\<lparr>sharedResourceMap := (sharedResourceMap rt)(name \<mapsto> map toFloat ds)\<rparr>)\<rparr>,
                      []))
       \<and> (\<forall>name xs rt. pv = String name \<and> b = Float32Array xs \<and> runtime proc = Some rt \<longrightarrow>
            updateSharedResourceMap k h toFloat proc path buffer
              = Some (Returns,
                      proc\<lparr>runtime := Some (rt\<lparr>sharedResourceMap := (sharedResourceMap rt)(name \<mapsto> xs)\<rparr>)\<rparr>,
                      []))"
proof -
  from finite_val_convert_both [OF assms] obtain k pv b
    where p: "emValToValue k h path = Some pv" and b: "emValToValue k h buffer = Some b"
    by (elim exE conjE)
  show ?thesis
    by (rule exI [of _ k], rule exI [of _ pv], rule exI [of _ b])
       (intro conjI p b updateSharedResourceMap_cases [OF p b, THEN conjunct1]
          updateSharedResourceMap_cases [OF p b, THEN conjunct2, THEN conjunct1]
          updateSharedResourceMap_cases [OF p b, THEN conjunct2, THEN conjunct2, THEN conjunct1]
          updateSharedResourceMap_cases [OF p b, THEN conjunct2, THEN conjunct2, THEN conjunct2, THEN conjunct1]
          updateSharedResourceMap_cases [OF p b, THEN conjunct2, THEN conjunct2, THEN conjunct2, THEN conjunct2])
qed

theorem updateSharedResourceMap_validates_witness:
  "finite_val batch_heap (val_string ''/ir/hall.wav'') \<and> finite_val batch_heap (val_object 4)
   \<and> (\<exists>k pv b. emValToValue k batch_heap (val_string ''/ir/hall.wav'') = Some pv
         \<and> emValToValue k batch_heap (val_object 4) = Some b)
   \<and> map_option (\<lambda>r. (fst r, map_option (\<lambda>rt. sharedResourceMap rt ''/ir/hall.wav'') (runtime (fst (snd r))),
                       snd (snd r)))
        (updateSharedResourceMap 2 batch_heap int prepared_processor (val_string ''/ir/hall.wav'') (val_object 4))
       = Some (Returns, Some (Some [1, 0, 2]), [])
   \<and> updateSharedResourceMap 2 batch_heap int prepared_processor (val_string ''/ir/hall.wav'') (val_object 5)
       = Some (Returns, prepared_processor, [ErrorCallback [''Invalid buffer for updating resource map'']])
   \<and> updateSharedResourceMap 2 batch_heap int prepared_processor (val_number 3) (val_object 4)
       = Some (Returns, prepared_processor, [ErrorCallback [''Path must be a string type'']])
   \<and> updateSharedResourceMap 2 batch_heap int prepared_processor (val_string ''/ir/hall.wav'') (val_object 1)
       = Some (Returns, prepared_processor,
               [ErrorCallback [''Buffer argument must be an Array or Float32Array type'']])"
proof -
  have f1: "finite_val batch_heap (val_string ''/ir/hall.wav'')"
    by (rule finite_val.primitive) simp
  note f2 = finite_batch_heap_numbers
  from updateSharedResourceMap_validates [OF f1 f2, of int prepared_processor]
  obtain k pv b where "emValToValue k batch_heap (val_string ''/ir/hall.wav'') = Some pv"
    and "emValToValue k batch_heap (val_object 4) = Some b"
    by (elim exE conjE)
  then have e: "\<exists>k pv b. emValToValue k batch_heap (val_string ''/ir/hall.wav'') = Some pv
         \<and> emValToValue k batch_heap (val_object 4) = Some b"
    by (intro exI [of _ k] exI [of _ pv] exI [of _ b] conjI)
  have a: "map_option (\<lambda>r. (fst r, map_option (\<lambda>rt. sharedResourceMap rt ''/ir/hall.wav'') (runtime (fst (snd r))),
                       snd (snd r)))
        (updateSharedResourceMap 2 batch_heap int prepared_processor (val_string ''/ir/hall.wav'') (val_object 4))
       = Some (Returns, Some (Some [1, 0, 2]), [])"
    by (simp add: updateSharedResourceMap_def numeral_2_eq_2 batch_heap_def arrayToFloatVector_def
        prepared_processor_runtime Runtime_updateSharedResourceMap_def)
  have b: "updateSharedResourceMap 2 batch_heap int prepared_processor (val_string ''/ir/hall.wav'') (val_object 5)
       = Some (Returns, prepared_processor, [ErrorCallback [''Invalid buffer for updating resource map'']])"
    by (simp add: updateSharedResourceMap_def numeral_2_eq_2 batch_heap_def arrayToFloatVector_def)
  have c: "updateSharedResourceMap 2 batch_heap int prepared_processor (val_number 3) (val_object 4)
       = Some (Returns, prepared_processor, [ErrorCallback [''Path must be a string type'']])"
    by (simp add: updateSharedResourceMap_def numeral_2_eq_2 batch_heap_def)
  have d: "updateSharedResourceMap 2 batch_heap int prepared_processor (val_string ''/ir/hall.wav'') (val_object 1)
       = Some (Returns, prepared_processor,
               [ErrorCallback [''Buffer argument must be an Array or Float32Array type'']])"
    by (simp add: updateSharedResourceMap_def numeral_2_eq_2 batch_heap_def map_insert_def)
  from f1 f2 e a b c d show ?thesis by (intro conjI)
qed

text \<open>
  C8 as stated fails: a path that is an object holding itself is not a string, yet its
  conversion never returns, so \<open>updateSharedResourceMap\<close> neither calls the error
  callback nor returns.
\<close>

theorem updateSharedResourceMap_validates_counterexample:
  "cyclic_heap 1 = Some (Plain_object [(''self'', val_object 1)])
   \<and> \<not> (\<exists>k r. updateSharedResourceMap k cyclic_heap int prepared_processor (val_object 1) val_null = Some r)"
proof -
  have 1: "cyclic_heap 1 = Some (Plain_object [(''self'', val_object 1)])"
    by (simp add: cyclic_heap_def)
  have n: "updateSharedResourceMap k cyclic_heap int prepared_processor (val_object 1) val_null = None" for k
    by (rule updateSharedResourceMap_never_returns [OF cyclic_object_never_converts])
  have 2: "\<not> (\<exists>k r. updateSharedResourceMap k cyclic_heap int prepared_processor (val_object 1) val_null = Some r)"
  proof
    assume "\<exists>k r. updateSharedResourceMap k cyclic_heap int prepared_processor (val_object 1) val_null = Some r"
    then obtain k r
      where "updateSharedResourceMap k cyclic_heap int prepared_processor (val_object 1) val_null = Some r"
      by (elim exE)
    with n [of k] show False by simp
  qed
  from 1 2 show ?thesis by (rule conjI)
qed

end
